theory Spec2Isabelle
  imports Complex_Main
begin

section \<open>Python values and library calls used by \<open>imagerie/models.py\<close>\<close>

text \<open>
  Exceptions are values. \<open>Exception\<close> carries the message the source passes to it; the
  other constructors are the built-in exceptions the modelled statements can raise.
  \<open>LibraryError\<close> stands for whatever an external collaborator raises (the HTTP client,
  the XML parser, the file system, Keras): the model takes these collaborators as
  parameters and lets them fail with any such value.
\<close>

datatype error =
    Exception string
  | IndexError
  | AttributeError
  | TypeError
  | ValueError
  | LibraryError string

text \<open>
  A call either raises or returns; the object it was called on (and the outside world)
  is returned next to the outcome, since an exception leaves earlier assignments in place.
\<close>

datatype 'a outcome = Raise error | Return 'a

subsection \<open>Strings\<close>

text \<open>
  Python strings are sequences of code points; a \<^typ>\<open>char\<close> is one code point below
  256. \<open>isspace\<close> is \<open>str.isspace\<close> on that range: TAB..CR, FS..US, SPACE, NEL (0x85) and
  NBSP (0xA0).
\<close>

definition isspace :: "char \<Rightarrow> bool" where
  "isspace c = (of_char c \<in> {9, 10, 11, 12, 13, 28, 29, 30, 31, 32, 133, 160 :: nat})"

text \<open>
  \<open>str.split()\<close> without arguments: skip a run of whitespace, stop at the end of the
  string, otherwise cut the run of non-whitespace that starts here and go on after it.
\<close>

function split :: "string \<Rightarrow> string list" where
  "split s =
     (case dropWhile isspace s of
        [] \<Rightarrow> []
      | c # cs \<Rightarrow> takeWhile (\<lambda>x. \<not> isspace x) (c # cs)
                 # split (dropWhile (\<lambda>x. \<not> isspace x) cs))"
  by pat_completeness auto
termination
proof (relation "measure length")
  show "wf (measure length)" by simp
next
  fix s :: string and c cs
  assume "dropWhile isspace s = c # cs"
  then have "length (c # cs) \<le> length s"
    by (metis length_dropWhile_le)
  moreover have "length (dropWhile (\<lambda>x. \<not> isspace x) cs) \<le> length cs"
    by (rule length_dropWhile_le)
  ultimately show "(dropWhile (\<lambda>x. \<not> isspace x) cs, s) \<in> measure length"
    by simp
qed

declare split.simps [simp del]

text \<open>\<open>sep.join(xs)\<close>.\<close>

fun join :: "string \<Rightarrow> string list \<Rightarrow> string" where
  "join sep [] = []"
| "join sep [x] = x"
| "join sep (x # y # ys) = x @ sep @ join sep (y # ys)"

section \<open>Taxonomy\<close>

text \<open>
  \<open>RankTaxon\<close> is an \<open>Annotation\<close> (a name) with Django's automatic primary key, which
  is \<open>None\<close> until the row is saved.
\<close>

record RankTaxon =
  rank_id :: "int option"
  rank_name :: string

record Taxon =
  tax_id :: "int option"
  name :: string
  sup_taxon :: "nat option"
  rank :: RankTaxon

text \<open>
  \<open>Taxon.clean_name\<close>: \<open>self.name.split()[0]\<close> raises \<open>IndexError\<close> on an empty list;
  the slice \<open>[:2]\<close> never raises.
\<close>

definition clean_name :: "Taxon \<Rightarrow> error + string" where
  "clean_name self =
     (if rank_id (rank self) \<noteq> Some 8 then
        (case split (name self) of
           [] \<Rightarrow> Inl IndexError
         | tok # _ \<Rightarrow> Inr tok)
      else Inr (join '' '' (take 2 (split (name self)))))"

subsection \<open>\<open>int(text)\<close>\<close>

text \<open>
  \<open>int(s)\<close> on a string: surrounding whitespace is stripped, one sign is allowed, and
  the rest must be decimal digits, with single underscores allowed between digits;
  anything else is a \<open>ValueError\<close>. \<open>int(None)\<close> is a \<open>TypeError\<close>. The whitespace
  \<open>int\<close> strips from an all-ASCII string is TAB..CR and SPACE only (FS..US are not
  stripped there); a string with a character beyond ASCII has every \<open>str.isspace\<close>
  character turned into a space first.
\<close>

definition digit_val :: "char \<Rightarrow> nat option" where
  "digit_val c =
     (let n = (of_char c :: nat) in if 48 \<le> n \<and> n \<le> 57 then Some (n - 48) else None)"

fun digits_value :: "bool \<Rightarrow> nat \<Rightarrow> string \<Rightarrow> nat option" where
  "digits_value after_digit acc [] = (if after_digit then Some acc else None)"
| "digits_value after_digit acc (c # cs) =
     (if c = CHR ''_'' then
        (if after_digit then digits_value False acc cs else None)
      else
        (case digit_val c of
           None \<Rightarrow> None
         | Some d \<Rightarrow> digits_value True (10 * acc + d) cs))"

definition int_isspace :: "string \<Rightarrow> char \<Rightarrow> bool" where
  "int_isspace s c =
     (if list_all (\<lambda>x. (of_char x :: nat) < 128) s
      then of_char c \<in> {9, 10, 11, 12, 13, 32 :: nat}
      else isspace c)"

definition strip :: "string \<Rightarrow> string" where
  "strip s = rev (dropWhile (int_isspace s) (rev (dropWhile (int_isspace s) s)))"

definition py_int :: "string option \<Rightarrow> error + int" where
  "py_int txt =
     (case txt of
        None \<Rightarrow> Inl TypeError
      | Some s \<Rightarrow>
          (case strip s of
             [] \<Rightarrow> Inl ValueError
           | c # cs \<Rightarrow>
               (if c = CHR ''-'' then
                  (case digits_value False 0 cs of
                     None \<Rightarrow> Inl ValueError
                   | Some n \<Rightarrow> Inr (- int n))
                else if c = CHR ''+'' then
                  (case digits_value False 0 cs of
                     None \<Rightarrow> Inl ValueError
                   | Some n \<Rightarrow> Inr (int n))
                else
                  (case digits_value False 0 (c # cs) of
                     None \<Rightarrow> Inl ValueError
                   | Some n \<Rightarrow> Inr (int n)))))"

subsection \<open>The taxonomy service\<close>

text \<open>
  An \<open>xml.etree.ElementTree\<close> element: tag, text (\<open>None\<close> when the element has none) and
  children. \<open>Element.find(tag)\<close> is the first direct child with that tag, or \<open>None\<close>.
\<close>

datatype Element = Element (tag: string) (elem_text: "string option") (children: "Element list")

definition Element_find :: "string \<Rightarrow> Element \<Rightarrow> Element option" where
  "Element_find t e = List.find (\<lambda>c. tag c = t) (children e)"

text \<open>
  The collaborators of the taxonomy code: \<open>requests.get(url).content\<close>,
  \<open>ElementTree.fromstring\<close> and Django's \<open>Model.save\<close> on a store of type \<open>'db\<close>.
\<close>

record 'db taxonomy_env =
  requests_get :: "string \<Rightarrow> error + string"
  fromstring :: "string \<Rightarrow> error + Element"
  Model_save :: "Taxon \<Rightarrow> 'db \<Rightarrow> error + 'db"

definition esearch_url :: "string \<Rightarrow> string" where
  "esearch_url nm =
     ''https://eutils.ncbi.nlm.nih.gov/entrez/eutils/esearch.fcgi?db=taxonomy&term='' @ nm"

text \<open>
  \<open>Taxon.get_id_from_name\<close>. The list of URLs requested so far is threaded through, so
  that a call leaves a trace. \<open>x.text\<close> and \<open>x.find\<close> on \<open>None\<close> raise \<open>AttributeError\<close>.
  When the count is not positive the function falls off its end and returns \<open>None\<close>.
\<close>

definition get_id_from_name ::
  "('db, 'z) taxonomy_env_scheme \<Rightarrow> string \<Rightarrow> string list \<Rightarrow> int option outcome \<times> string list"
where
  "get_id_from_name env nm requested =
     (let url = esearch_url nm; requested' = requested @ [url] in
      case requests_get env url of
        Inl e \<Rightarrow> (Raise e, requested')
      | Inr content \<Rightarrow>
          (case fromstring env content of
             Inl e \<Rightarrow> (Raise e, requested')
           | Inr xml_root \<Rightarrow>
               (case Element_find ''Count'' xml_root of
                  None \<Rightarrow> (Raise AttributeError, requested')
                | Some count \<Rightarrow>
                    (case py_int (elem_text count) of
                       Inl e \<Rightarrow> (Raise e, requested')
                     | Inr n \<Rightarrow>
                         if n > 0 then
                           (case Element_find ''IdList'' xml_root of
                              None \<Rightarrow> (Raise AttributeError, requested')
                            | Some idlist \<Rightarrow>
                                (case Element_find ''Id'' idlist of
                                   None \<Rightarrow> (Raise AttributeError, requested')
                                 | Some ident \<Rightarrow>
                                     (case py_int (elem_text ident) of
                                        Inl e \<Rightarrow> (Raise e, requested')
                                      | Inr v \<Rightarrow> (Return (Some v), requested'))))
                         else (Return None, requested')))))"

text \<open>\<open>Taxon.set_id_from_name\<close>: \<open>self.tax_id = self.get_id_from_name(self.clean_name)\<close>.\<close>

definition set_id_from_name ::
  "('db, 'z) taxonomy_env_scheme \<Rightarrow> Taxon \<Rightarrow> string list \<Rightarrow> unit outcome \<times> Taxon \<times> string list"
where
  "set_id_from_name env self requested =
     (case clean_name self of
        Inl e \<Rightarrow> (Raise e, self, requested)
      | Inr nm \<Rightarrow>
          (case get_id_from_name env nm requested of
             (Raise e, requested') \<Rightarrow> (Raise e, self, requested')
           | (Return v, requested') \<Rightarrow> (Return (), self\<lparr>tax_id := v\<rparr>, requested')))"

text \<open>\<open>Taxon.save\<close>: the lookup runs only under \<open>self.tax_id is None\<close>; then \<open>super().save\<close>.\<close>

definition super_save ::
  "('db, 'z) taxonomy_env_scheme \<Rightarrow> Taxon \<Rightarrow> string list \<Rightarrow> 'db
     \<Rightarrow> unit outcome \<times> Taxon \<times> string list \<times> 'db"
where
  "super_save env self requested db =
     (case Model_save env self db of
        Inl e \<Rightarrow> (Raise e, self, requested, db)
      | Inr db' \<Rightarrow> (Return (), self, requested, db'))"

definition save ::
  "('db, 'z) taxonomy_env_scheme \<Rightarrow> Taxon \<Rightarrow> string list \<Rightarrow> 'db
     \<Rightarrow> unit outcome \<times> Taxon \<times> string list \<times> 'db"
where
  "save env self requested db =
     (if tax_id self = None then
        (case set_id_from_name env self requested of
           (Raise e, self', requested') \<Rightarrow> (Raise e, self', requested', db)
         | (Return u, self', requested') \<Rightarrow> super_save env self' requested' db)
      else super_save env self requested db)"

section \<open>Convolutional networks\<close>

subsection \<open>Formatting and paths\<close>

text \<open>\<open>str(n)\<close> for an integer, as an f-string field renders it.\<close>

definition digit_char :: "nat \<Rightarrow> char" where
  "digit_char d = char_of (48 + d)"

function str_nat :: "nat \<Rightarrow> string" where
  "str_nat n = (if n < 10 then [digit_char n] else str_nat (n div 10) @ [digit_char (n mod 10)])"
  by pat_completeness auto
termination
  by (relation "measure id") auto

declare str_nat.simps [simp del]

definition str_int :: "int \<Rightarrow> string" where
  "str_int i = (if i < 0 then CHR ''-'' # str_nat (nat (- i)) else str_nat (nat i))"

text \<open>
  \<open>os.path.join(a, *p)\<close> on a POSIX system: a component that starts with the separator
  replaces everything before it; otherwise it is appended, after a separator unless the
  path so far is empty or already ends with one.
\<close>

definition startswith_sep :: "string \<Rightarrow> bool" where
  "startswith_sep b = (case b of [] \<Rightarrow> False | c # _ \<Rightarrow> c = CHR ''/'')"

definition endswith_sep :: "string \<Rightarrow> bool" where
  "endswith_sep a = (case rev a of [] \<Rightarrow> False | c # _ \<Rightarrow> c = CHR ''/'')"

fun os_path_join :: "string \<Rightarrow> string list \<Rightarrow> string" where
  "os_path_join path [] = path"
| "os_path_join path (b # bs) =
     os_path_join
       (if startswith_sep b then b
        else if path = [] \<or> endswith_sep path then path @ b
        else path @ ''/'' @ b) bs"

text \<open>
  \<open>str.split(sep)\<close> with a one-character separator, and the components that
  \<open>os.path.normpath\<close> keeps: empty components and \<open>.\<close> are dropped, and \<open>..\<close> removes
  the component before it (at the root of an absolute path it is dropped, at the start of
  a relative path it stays). This is where the file system finds the path when no
  symbolic link is involved.
\<close>

fun split_on :: "char \<Rightarrow> string \<Rightarrow> string list" where
  "split_on sep [] = [[]]"
| "split_on sep (c # cs) =
     (if c = sep then [] # split_on sep cs
      else (case split_on sep cs of
              [] \<Rightarrow> [[c]]
            | x # xs \<Rightarrow> (c # x) # xs))"

definition normpath_step :: "bool \<Rightarrow> string list \<Rightarrow> string \<Rightarrow> string list" where
  "normpath_step initial_slashes new_comps part =
     (if part = [] \<or> part = ''.'' then new_comps
      else if part = ''..'' then
        (if new_comps = [] then (if initial_slashes then new_comps else new_comps @ [part])
         else if last new_comps = ''..'' then new_comps @ [part]
         else butlast new_comps)
      else new_comps @ [part])"

definition normpath_comps :: "string \<Rightarrow> string list" where
  "normpath_comps path =
     foldl (normpath_step (startswith_sep path)) [] (split_on CHR ''/'' path)"

text \<open>
  A path lies under a directory when both are absolute or both relative and the
  normalised components of the directory are a proper prefix of those of the path.
\<close>

definition is_under :: "string \<Rightarrow> string \<Rightarrow> bool" where
  "is_under dir p =
     (startswith_sep dir = startswith_sep p \<and>
      length (normpath_comps dir) < length (normpath_comps p) \<and>
      take (length (normpath_comps dir)) (normpath_comps p) = normpath_comps dir)"

subsection \<open>Entities\<close>

record datetime =
  year :: int
  month :: int
  day :: int
  hour :: int
  minute :: int
  second :: int

record CNNArchitecture =
  arch_name :: string
  optimizer :: string
  loss :: string
  model_code :: string

text \<open>
  A \<open>CNN\<close> row with the attributes the class adds in memory. \<open>date\<close> is filled by the
  store when the row is first saved (\<open>auto_now_add\<close>), \<open>nn_model\<close> holds the Keras model
  (type \<open>'m\<close>), and the four data sets start as \<open>None\<close>.
\<close>

record 'm CNN =
  date :: "datetime option"
  accuracy :: "real option"
  cnn_name :: string
  architecture :: CNNArchitecture
  learning_data :: "string option"
  available :: bool
  nn_model :: "'m option"
  train_images :: "nat list option"
  train_labels :: "nat list option"
  test_images :: "nat list option"
  test_labels :: "nat list option"

record GroundTruthImage =
  gt_image :: string
  gt_specie :: "nat option"

record Class =
  pos :: int
  class_cnn :: nat
  class_specie :: "nat option"

record Prediction =
  pk :: nat
  pred_cnn :: nat
  pred_image :: nat
  pred_specie :: nat
  confidence :: real

text \<open>The store: the species as pairs of id and \<open>Taxon\<close> name, and the tables queried.\<close>

record database =
  Specie_objects :: "(nat \<times> string) list"
  GroundTruthImage_objects :: "GroundTruthImage list"
  Class_objects :: "Class list"
  Prediction_objects :: "Prediction list"

text \<open>
  What the file system has been asked to do, in order: \<open>os.mkdir(path)\<close> and
  \<open>model.save(path)\<close>.
\<close>

datatype 'm fs_event = Mkdir string | Saved 'm string

text \<open>
  The collaborators of the network code. \<open>create_model\<close> is the import of the
  architecture's script followed by its \<open>create_model()\<close>; the others are the Keras model's
  methods and \<open>os.mkdir\<close>. The two file-system calls see what happened before and answer
  with the exception they raise, if any.
\<close>

record ('m, 'img) keras_env =
  MEDIA_ROOT :: string
  create_model :: "string \<Rightarrow> error + 'm"
  model_compile :: "'m \<Rightarrow> string \<Rightarrow> string \<Rightarrow> error + 'm"
  model_fit :: "'m \<Rightarrow> nat list option \<Rightarrow> nat list option \<Rightarrow> nat \<Rightarrow> error + 'm"
  model_evaluate :: "'m \<Rightarrow> nat list option \<Rightarrow> nat list option \<Rightarrow> error + (real \<times> real)"
  model_predict :: "'m \<Rightarrow> 'img list \<Rightarrow> error + real list list"
  model_load_weights :: "'m \<Rightarrow> string option \<Rightarrow> 'm fs_event list \<Rightarrow> error + 'm"
  model_save :: "'m \<Rightarrow> string \<Rightarrow> 'm fs_event list \<Rightarrow> error option"
  os_mkdir :: "string \<Rightarrow> 'm fs_event list \<Rightarrow> error option"

subsection \<open>Operations\<close>

text \<open>\<open>CNNArchitecture.compile\<close>.\<close>

definition compile :: "('m, 'img, 'z) keras_env_scheme \<Rightarrow> CNNArchitecture \<Rightarrow> error + 'm" where
  "compile env arch =
     (case create_model env (model_code arch) of
        Inl e \<Rightarrow> Inl e
      | Inr m \<Rightarrow> model_compile env m (optimizer arch) (loss arch))"

text \<open>
  \<open>CNN.split_images\<close>. The live statements choose the query set and build a grouped
  count (\<open>values('specie__name').annotate(Count('specie'))\<close>: one row per species name,
  counting the images whose species is not null) that is never evaluated or stored; everything after them is commented out in the
  source, so no \<open>Class\<close> row is created and no data set is assigned.
\<close>

definition specie__name :: "database \<Rightarrow> GroundTruthImage \<Rightarrow> string option" where
  "specie__name db i =
     (case gt_specie i of None \<Rightarrow> None | Some s \<Rightarrow> map_of (Specie_objects db) s)"

definition values_annotate_Count ::
  "database \<Rightarrow> GroundTruthImage list \<Rightarrow> (string option \<times> nat) list"
where
  "values_annotate_Count db images =
     map (\<lambda>n. (n, length (filter (\<lambda>i. specie__name db i = n \<and> gt_specie i \<noteq> None) images)))
       (remdups (map (specie__name db) images))"

definition split_images ::
  "database \<Rightarrow> GroundTruthImage list option \<Rightarrow> real \<Rightarrow> 'm CNN \<Rightarrow> unit outcome \<times> 'm CNN \<times> database"
where
  "split_images db images test_fraction self =
     (let images' = (case images of None \<Rightarrow> GroundTruthImage_objects db | Some q \<Rightarrow> q);
          unused = values_annotate_Count db images'
      in (Return (), self, db))"

text \<open>
  \<open>CNN.save_model\<close>. \<open>self.date.year\<close> on a missing date and \<open>self.nn_model.save\<close> on a
  missing model raise \<open>AttributeError\<close>.
\<close>

definition weights_leaf :: "string \<Rightarrow> datetime \<Rightarrow> string" where
  "weights_leaf nm d =
     nm @ ''_'' @ str_int (year d) @ ''_'' @ str_int (month d) @ ''_''
        @ str_int (day d) @ ''_'' @ str_int (hour d)"

definition weights_path :: "string \<Rightarrow> string \<Rightarrow> datetime \<Rightarrow> string" where
  "weights_path media_root nm d =
     os_path_join media_root [''training_datas'', weights_leaf nm d]"

definition save_model ::
  "('m, 'img, 'z) keras_env_scheme \<Rightarrow> 'm CNN \<Rightarrow> 'm fs_event list
     \<Rightarrow> unit outcome \<times> 'm CNN \<times> 'm fs_event list"
where
  "save_model env self fs =
     (case date self of
        None \<Rightarrow> (Raise AttributeError, self, fs)
      | Some d \<Rightarrow>
          (let p = weights_path (MEDIA_ROOT env) (arch_name (architecture self)) d;
               self1 = self\<lparr>learning_data := Some p\<rparr>
           in case os_mkdir env p fs of
                Some e \<Rightarrow> (Raise e, self1, fs)
              | None \<Rightarrow>
                  (let fs1 = fs @ [Mkdir p] in
                   case nn_model self1 of
                     None \<Rightarrow> (Raise AttributeError, self1, fs1)
                   | Some m \<Rightarrow>
                       (case model_save env m p fs1 of
                          Some e \<Rightarrow> (Raise e, self1, fs1)
                        | None \<Rightarrow> (Return (), self1, fs1 @ [Saved m p])))))"

text \<open>\<open>CNN.train\<close>: each statement in turn; the first exception ends the call.\<close>

definition train ::
  "('m, 'img, 'z) keras_env_scheme \<Rightarrow> database \<Rightarrow> 'm CNN \<Rightarrow> 'm fs_event list
     \<Rightarrow> unit outcome \<times> 'm CNN \<times> 'm fs_event list"
where
  "train env db self fs =
     (case compile env (architecture self) of
        Inl e \<Rightarrow> (Raise e, self, fs)
      | Inr m \<Rightarrow>
          (let self1 = self\<lparr>nn_model := Some m\<rparr> in
           case split_images db None (2 / 10) self1 of
             (Raise e, self2, db') \<Rightarrow> (Raise e, self2, fs)
           | (Return u, self2, db') \<Rightarrow>
               (case nn_model self2 of
                  None \<Rightarrow> (Raise AttributeError, self2, fs)
                | Some m2 \<Rightarrow>
                    (case model_fit env m2 (train_images self2) (train_labels self2) 10 of
                       Inl e \<Rightarrow> (Raise e, self2, fs)
                     | Inr m3 \<Rightarrow>
                         (let self3 = self2\<lparr>nn_model := Some m3\<rparr> in
                          case model_evaluate env m3 (test_images self3) (test_labels self3) of
                            Inl e \<Rightarrow> (Raise e, self3, fs)
                          | Inr (l, acc) \<Rightarrow>
                              (let self4 = self3\<lparr>accuracy := Some acc\<rparr> in
                               case save_model env self4 fs of
                                 (Raise e, self5, fs') \<Rightarrow> (Raise e, self5, fs')
                               | (Return u', self5, fs') \<Rightarrow>
                                   (Return (), self5\<lparr>available := True\<rparr>, fs')))))))"

text \<open>
  \<open>CNN.classify\<close>. The result of \<open>predictions.argmax()\<close> (the index of the largest entry
  of the flattened array, \<open>ValueError\<close> on an empty array) is dropped, and the function
  ends without a \<open>return\<close>: its value is \<open>None\<close>.
\<close>

definition argmax :: "real list list \<Rightarrow> error + nat" where
  "argmax predictions =
     (let flat = concat predictions in
      if flat = [] then Inl ValueError
      else Inr (hd (filter (\<lambda>i. flat ! i = Max (set flat)) [0 ..< length flat])))"

definition classify ::
  "('m, 'img, 'z) keras_env_scheme \<Rightarrow> 'm CNN \<Rightarrow> 'img list \<Rightarrow> 'm fs_event list
     \<Rightarrow> nat list option outcome \<times> 'm CNN"
where
  "classify env self images fs =
     (if \<not> available self then (Raise (Exception ''The CNN is not available yet''), self)
      else
        (case (case nn_model self of
                 Some m \<Rightarrow> (Return m, self)
               | None \<Rightarrow>
                   (case compile env (architecture self) of
                      Inl e \<Rightarrow> (Raise e, self)
                    | Inr m \<Rightarrow>
                        (case model_load_weights env m (learning_data self) fs of
                           Inl e \<Rightarrow> (Raise e, self\<lparr>nn_model := Some m\<rparr>)
                         | Inr m' \<Rightarrow> (Return m', self\<lparr>nn_model := Some m'\<rparr>)))) of
           (Raise e, self1) \<Rightarrow> (Raise e, self1)
         | (Return m, self1) \<Rightarrow>
             (case model_predict env m images of
                Inl e \<Rightarrow> (Raise e, self1)
              | Inr predictions \<Rightarrow>
                  (case argmax predictions of
                     Inl e \<Rightarrow> (Raise e, self1)
                   | Inr unused \<Rightarrow> (Return None, self1)))))"

section \<open>Predictions of a submitted image\<close>

text \<open>
  The part of Django's query sets that \<open>SubmittedImage.specie\<close> uses, over the
  \<open>Prediction\<close> table. \<open>values(fields).annotate(tot_conf=Sum('confidence'))\<close> describes a
  grouped query and runs nothing. When the query runs, the rows are grouped by the
  \<open>values\<close> fields and by the ordering field (Django adds an \<open>order_by\<close> field to the
  grouping), each group gives one row with the summed confidence, and the rows come in
  the order of the ordering field. \<open>first()\<close> on a query set without an ordering orders
  it by the primary key and returns the first row, or \<open>None\<close>.
\<close>

datatype prediction_field = Field_pk | Field_cnn | Field_image | Field_specie

fun field_value :: "prediction_field \<Rightarrow> Prediction \<Rightarrow> nat" where
  "field_value Field_pk p = pk p"
| "field_value Field_cnn p = pred_cnn p"
| "field_value Field_image p = pred_image p"
| "field_value Field_specie p = pred_specie p"

record values_queryset =
  qs_rows :: "Prediction list"
  qs_values :: "prediction_field list"
  qs_order_by :: "prediction_field option"

definition prediction_set :: "database \<Rightarrow> nat \<Rightarrow> Prediction list" where
  "prediction_set db self = filter (\<lambda>p. pred_image p = self) (Prediction_objects db)"

definition values_annotate_Sum :: "prediction_field list \<Rightarrow> Prediction list \<Rightarrow> values_queryset" where
  "values_annotate_Sum fs rows = \<lparr>qs_rows = rows, qs_values = fs, qs_order_by = None\<rparr>"

definition order_by :: "prediction_field \<Rightarrow> values_queryset \<Rightarrow> values_queryset" where
  "order_by f qs = qs\<lparr>qs_order_by := Some f\<rparr>"

text \<open>Running the query. Every group is a non-empty list, so its head is one of its rows.\<close>

definition fetch_rows :: "values_queryset \<Rightarrow> (nat list \<times> real) list" where
  "fetch_rows qs =
     (let group_fields =
            qs_values qs @
              (case qs_order_by qs of
                 None \<Rightarrow> []
               | Some f \<Rightarrow> if f \<in> set (qs_values qs) then [] else [f]);
          key = (\<lambda>p. map (\<lambda>f. field_value f p) group_fields);
          groups = map (\<lambda>k. filter (\<lambda>p. key p = k) (qs_rows qs)) (remdups (map key (qs_rows qs)));
          ordered =
            (case qs_order_by qs of
               None \<Rightarrow> groups
             | Some f \<Rightarrow> sort_key (\<lambda>g. field_value f (hd g)) groups)
      in map (\<lambda>g. (map (\<lambda>f. field_value f (hd g)) (qs_values qs), sum_list (map confidence g)))
           ordered)"

definition first :: "values_queryset \<Rightarrow> (nat list \<times> real) option" where
  "first qs =
     (case fetch_rows (if qs_order_by qs \<noteq> None then qs else order_by Field_pk qs) of
        [] \<Rightarrow> None
      | r # _ \<Rightarrow> Some r)"

text \<open>
  \<open>SubmittedImage.specie\<close>: the row \<open>{'specie': id, 'tot_conf': sum}\<close> that
  \<open>first()\<close> returns, as the pair of the \<open>values\<close> fields and the sum.
\<close>

definition specie :: "database \<Rightarrow> nat \<Rightarrow> (nat list \<times> real) option" where
  "specie db self = first (values_annotate_Sum [Field_specie] (prediction_set db self))"

text \<open>The summed confidence of a species over the predictions of an image.\<close>

definition summed_confidence :: "database \<Rightarrow> nat \<Rightarrow> nat \<Rightarrow> real" where
  "summed_confidence db self s =
     sum_list (map confidence (filter (\<lambda>p. pred_specie p = s) (prediction_set db self)))"

section \<open>Image preprocessing\<close>

text \<open>
  A numpy array of three or four dimensions: its shape and its entries by index.
  Entries outside the shape do not exist in numpy; the operations below check the one
  index they fix and raise \<open>IndexError\<close> when it is out of range.
\<close>

record 'a ndarray3 =
  shape3 :: "nat \<times> nat \<times> nat"
  at3 :: "nat \<Rightarrow> nat \<Rightarrow> nat \<Rightarrow> 'a"

record 'a ndarray4 =
  shape4 :: "nat \<times> nat \<times> nat \<times> nat"
  at4 :: "nat \<Rightarrow> nat \<Rightarrow> nat \<Rightarrow> nat \<Rightarrow> 'a"

record Image =
  image_path :: string

text \<open>
  The collaborators of \<open>Image.preprocess\<close>: \<open>imageio.imread(path, pilmode='RGB')\<close>, the
  pixel values PIL's \<open>resize\<close> computes (by output size, row, column and channel), the
  conversion of a pixel value (type \<open>'p\<close>) to a 32-bit float (type \<open>'f\<close>), and the
  subtraction of a constant from such a float.
\<close>

record ('p, 'f) image_env =
  imread :: "string \<Rightarrow> error + 'p ndarray3"
  resample :: "'p ndarray3 \<Rightarrow> nat \<times> nat \<Rightarrow> nat \<Rightarrow> nat \<Rightarrow> nat \<Rightarrow> 'p"
  astype_float32 :: "'p \<Rightarrow> 'f"
  float32_sub :: "'f \<Rightarrow> real \<Rightarrow> 'f"

text \<open>\<open>np.array(PImage.fromarray(img).resize((w, h)))\<close>: \<open>h\<close> rows, \<open>w\<close> columns, the same channels.\<close>

definition resize :: "('p, 'f, 'z) image_env_scheme \<Rightarrow> 'p ndarray3 \<Rightarrow> nat \<times> nat \<Rightarrow> 'p ndarray3" where
  "resize env img sz =
     (case sz of (w, h) \<Rightarrow>
        (case shape3 img of (h0, w0, c) \<Rightarrow>
           \<lparr>shape3 = (h, w, c), at3 = resample env img (w, h)\<rparr>))"

definition astype :: "('p \<Rightarrow> 'f) \<Rightarrow> 'p ndarray3 \<Rightarrow> 'f ndarray3" where
  "astype conv img = \<lparr>shape3 = shape3 img, at3 = (\<lambda>i j k. conv (at3 img i j k))\<rparr>"

text \<open>\<open>img[:, :, c] -= v\<close>.\<close>

definition isub_channel ::
  "('p, 'f, 'z) image_env_scheme \<Rightarrow> nat \<Rightarrow> real \<Rightarrow> 'f ndarray3 \<Rightarrow> error + 'f ndarray3"
where
  "isub_channel env c v img =
     (case shape3 img of (h, w, n) \<Rightarrow>
        if c < n then
          Inr (img\<lparr>at3 := (\<lambda>i j k. if k = c then float32_sub env (at3 img i j k) v
                                   else at3 img i j k)\<rparr>)
        else Inl IndexError)"

text \<open>
  \<open>img[:, :, dst] = img[:, :, src]\<close> with index lists: the right side is a copy taken
  before anything is written, and a channel written twice keeps the last value.
\<close>

definition assign_channels :: "nat list \<Rightarrow> nat list \<Rightarrow> 'f ndarray3 \<Rightarrow> error + 'f ndarray3" where
  "assign_channels dst src img =
     (case shape3 img of (h, w, n) \<Rightarrow>
        if list_ex (\<lambda>k. n \<le> k) (dst @ src) then Inl IndexError
        else if length dst \<noteq> length src then Inl ValueError
        else
          Inr (img\<lparr>at3 := (\<lambda>i j k. case map_of (rev (zip dst src)) k of
                                     None \<Rightarrow> at3 img i j k
                                   | Some k' \<Rightarrow> at3 img i j k')\<rparr>))"

text \<open>\<open>img.transpose((2, 0, 1))\<close> and \<open>np.expand_dims(img, axis=0)\<close>.\<close>

definition transpose_2_0_1 :: "'f ndarray3 \<Rightarrow> 'f ndarray3" where
  "transpose_2_0_1 img =
     (case shape3 img of (h, w, n) \<Rightarrow>
        \<lparr>shape3 = (n, h, w), at3 = (\<lambda>c i j. at3 img i j c)\<rparr>)"

definition expand_dims_0 :: "'f ndarray3 \<Rightarrow> 'f ndarray4" where
  "expand_dims_0 img =
     (case shape3 img of (a, b, c) \<Rightarrow>
        \<lparr>shape4 = (1, a, b, c), at4 = (\<lambda>n. at3 img)\<rparr>)"

definition preprocess :: "('p, 'f, 'z) image_env_scheme \<Rightarrow> Image \<Rightarrow> error + 'f ndarray4" where
  "preprocess env self =
     (case imread env (image_path self) of
        Inl e \<Rightarrow> Inl e
      | Inr raw \<Rightarrow>
          (let img = astype (astype_float32 env) (resize env raw (224, 224)) in
           case isub_channel env 0 123.68 img of
             Inl e \<Rightarrow> Inl e
           | Inr img1 \<Rightarrow>
               (case isub_channel env 1 116.779 img1 of
                  Inl e \<Rightarrow> Inl e
                | Inr img2 \<Rightarrow>
                    (case isub_channel env 2 103.939 img2 of
                       Inl e \<Rightarrow> Inl e
                     | Inr img3 \<Rightarrow>
                         (case assign_channels [0, 1, 2] [2, 1, 0] img3 of
                            Inl e \<Rightarrow> Inl e
                          | Inr img4 \<Rightarrow> Inr (expand_dims_0 (transpose_2_0_1 img4)))))))"

section \<open>Sample inputs\<close>

text \<open>
  Concrete collaborators and rows on which the theorems below are evaluated. The taxonomy
  service answers every search with zero matches; the store appends the saved row.
\<close>

definition sample_taxonomy_env :: "Taxon list taxonomy_env" where
  "sample_taxonomy_env =
     \<lparr>requests_get = (\<lambda>url. Inr ''<eSearchResult><Count>0</Count><IdList/></eSearchResult>''),
      fromstring = (\<lambda>content. Inr (Element ''eSearchResult'' None
                      [Element ''Count'' (Some ''0'') [], Element ''IdList'' None []])),
      Model_save = (\<lambda>t db. Inr (db @ [t]))\<rparr>"

definition sample_taxon :: Taxon where
  "sample_taxon =
     \<lparr>tax_id = None, name = ''Homo sapiens Linnaeus'', sup_taxon = None,
      rank = \<lparr>rank_id = Some 8, rank_name = ''species''\<rparr>\<rparr>"

text \<open>
  A Keras model is a number here: \<open>fit\<close> adds the epochs to it. \<open>os.mkdir\<close> fails on a
  directory that was already created, as the real one does.
\<close>

definition sample_keras_env :: "(nat, nat) keras_env" where
  "sample_keras_env =
     \<lparr>MEDIA_ROOT = ''/srv/media'',
      create_model = (\<lambda>code. Inr 0),
      model_compile = (\<lambda>m opt l. Inr m),
      model_fit = (\<lambda>m xs ys epochs. Inr (m + epochs)),
      model_evaluate = (\<lambda>m xs ys. Inr (1 / 2, 9 / 10)),
      model_predict = (\<lambda>m images. Inr (map (\<lambda>i. [1 / 10, 9 / 10]) images)),
      model_load_weights = (\<lambda>m path fs. Inr m),
      model_save = (\<lambda>m path fs. None),
      os_mkdir = (\<lambda>path fs. if Mkdir path \<in> set fs
                               then Some (LibraryError ''FileExistsError'') else None)\<rparr>"

definition sample_architecture :: "string \<Rightarrow> CNNArchitecture" where
  "sample_architecture nm =
     \<lparr>arch_name = nm, optimizer = ''sgd'', loss = ''categorical_crossentropy'',
      model_code = ''models_scripts/googlenet.py''\<rparr>"

definition sample_cnn :: "string \<Rightarrow> bool \<Rightarrow> nat CNN" where
  "sample_cnn nm avail =
     \<lparr>date = Some \<lparr>year = 2020, month = 3, day = 7, hour = 15, minute = 30, second = 0\<rparr>,
      accuracy = None, cnn_name = ''cnn'', architecture = sample_architecture nm,
      learning_data = None, available = avail, nn_model = None,
      train_images = None, train_labels = None, test_images = None, test_labels = None\<rparr>"

text \<open>
  A store with eleven ground-truth images of species 1, no \<open>Class\<close> row yet, and two
  predictions for the submitted image 7: species 1 with confidence 0.1 (the older
  row) and species 2 with confidence 0.5.
\<close>

definition sample_database :: database where
  "sample_database =
     \<lparr>Specie_objects = [(1, ''Quercus robur''), (2, ''Fagus sylvatica'')],
      GroundTruthImage_objects =
        map (\<lambda>i. \<lparr>gt_image = ''images/'' @ str_nat i, gt_specie = Some 1\<rparr>) [0 ..< 11],
      Class_objects = [],
      Prediction_objects =
        [\<lparr>pk = 1, pred_cnn = 1, pred_image = 7, pred_specie = 1, confidence = 1 / 10\<rparr>,
         \<lparr>pk = 2, pred_cnn = 1, pred_image = 7, pred_specie = 2, confidence = 5 / 10\<rparr>]\<rparr>"

text \<open>The predictions of the spec's example: (A, 0.6), (A, 0.3), (B, 0.5) with A = 1, B = 2.\<close>

definition example_database :: database where
  "example_database =
     \<lparr>Specie_objects = [(1, ''Quercus robur''), (2, ''Fagus sylvatica'')],
      GroundTruthImage_objects = [],
      Class_objects = [],
      Prediction_objects =
        [\<lparr>pk = 1, pred_cnn = 1, pred_image = 7, pred_specie = 1, confidence = 6 / 10\<rparr>,
         \<lparr>pk = 2, pred_cnn = 1, pred_image = 7, pred_specie = 1, confidence = 3 / 10\<rparr>,
         \<lparr>pk = 3, pred_cnn = 1, pred_image = 7, pred_specie = 2, confidence = 5 / 10\<rparr>]\<rparr>"

text \<open>
  An image of one colour: the decoder returns a 2 by 2 RGB array with the pixel
  (200, 100, 50), resizing repeats it, pixel values are numbers and floats are reals.
\<close>

definition sample_image_env :: "(nat, real) image_env" where
  "sample_image_env =
     \<lparr>imread = (\<lambda>path. Inr \<lparr>shape3 = (2, 2, 3),
                              at3 = (\<lambda>i j k. if k = 0 then 200 else if k = 1 then 100 else 50)\<rparr>),
      resample = (\<lambda>img sz i j k. at3 img 0 0 k),
      astype_float32 = real,
      float32_sub = (\<lambda>x v. x - v)\<rparr>"

section \<open>Properties of the taxonomy code\<close>

subsection \<open>\<open>str.split()\<close> yields the whitespace-separated tokens\<close>

lemma split_eq_Nil: "dropWhile isspace s = [] \<Longrightarrow> split s = []"
  by (simp only: split.simps[of s] list.case)

lemma split_eq_Cons:
  "dropWhile isspace s = c # cs \<Longrightarrow>
     split s = takeWhile (\<lambda>x. \<not> isspace x) (c # cs) # split (dropWhile (\<lambda>x. \<not> isspace x) cs)"
  by (simp only: split.simps[of s] list.case)

lemma split_Nil_iff: "split s = [] \<longleftrightarrow> (\<forall>c \<in> set s. isspace c)"
proof (cases "dropWhile isspace s")
  case Nil
  then show ?thesis using split_eq_Nil[OF Nil] by (simp add: dropWhile_eq_Nil_conv)
next
  case (Cons c cs)
  have "\<not> (\<forall>c \<in> set s. isspace c)"
    using Cons dropWhile_eq_Nil_conv[of isspace s] by simp
  then show ?thesis using split_eq_Cons[OF Cons] by simp
qed

lemma dropWhile_Cons_head: "dropWhile P xs = y # ys \<Longrightarrow> \<not> P y"
  using hd_dropWhile[of P xs] by simp

text \<open>The first token is the first maximal run of non-whitespace characters.\<close>

lemma split_first:
  "split s = tok # rest \<Longrightarrow> tok = takeWhile (\<lambda>x. \<not> isspace x) (dropWhile isspace s)"
proof (cases "dropWhile isspace s")
  case Nil
  assume "split s = tok # rest"
  then show ?thesis using split_eq_Nil[OF Nil] by simp
next
  case (Cons c cs)
  assume "split s = tok # rest"
  then show ?thesis using split_eq_Cons[OF Cons] Cons by simp
qed

text \<open>Every token is non-empty and free of whitespace.\<close>

lemma split_tokens: "tok \<in> set (split s) \<Longrightarrow> tok \<noteq> [] \<and> (\<forall>c \<in> set tok. \<not> isspace c)"
proof (induction s arbitrary: tok rule: split.induct)
  case (1 s)
  show ?case
  proof (cases "dropWhile isspace s")
    case Nil
    with "1.prems" show ?thesis using split_eq_Nil[OF Nil] by simp
  next
    case (Cons c cs)
    have c: "\<not> isspace c" using Cons by (rule dropWhile_Cons_head)
    from "1.prems"
    have "tok = takeWhile (\<lambda>x. \<not> isspace x) (c # cs)
            \<or> tok \<in> set (split (dropWhile (\<lambda>x. \<not> isspace x) cs))"
      using split_eq_Cons[OF Cons] by simp
    then show ?thesis
    proof
      assume t: "tok = takeWhile (\<lambda>x. \<not> isspace x) (c # cs)"
      have "\<forall>x \<in> set (takeWhile (\<lambda>x. \<not> isspace x) (c # cs)). \<not> isspace x"
        using set_takeWhileD[of _ "\<lambda>x. \<not> isspace x" "c # cs"] by blast
      then show ?thesis using c t by simp
    next
      assume "tok \<in> set (split (dropWhile (\<lambda>x. \<not> isspace x) cs))"
      then show ?thesis using "1.IH"[OF Cons] by blast
    qed
  qed
qed

lemma filter_takeWhile_dropWhile:
  "filter P xs = filter P (takeWhile Q xs) @ filter P (dropWhile Q xs)"
  by (metis filter_append takeWhile_dropWhile_id)

lemma filter_not_takeWhile: "filter (\<lambda>c. \<not> Q c) (takeWhile Q xs) = []"
  by (induction xs) auto

lemma filter_takeWhile_same: "filter P (takeWhile P xs) = takeWhile P xs"
  by (induction xs) auto

text \<open>The tokens, in order, are exactly the non-whitespace characters of the string.\<close>

lemma concat_split: "concat (split s) = filter (\<lambda>c. \<not> isspace c) s"
proof (induction s rule: split.induct)
  case (1 s)
  have decomp: "filter (\<lambda>c. \<not> isspace c) s =
      filter (\<lambda>c. \<not> isspace c) (takeWhile isspace s)
        @ filter (\<lambda>c. \<not> isspace c) (dropWhile isspace s)"
    by (rule filter_takeWhile_dropWhile)
  show ?case
  proof (cases "dropWhile isspace s")
    case Nil
    from decomp have "filter (\<lambda>c. \<not> isspace c) s = []"
      by (simp only: Nil filter_not_takeWhile filter.simps append_Nil)
    then show ?thesis using split_eq_Nil[OF Nil] by simp
  next
    case (Cons c cs)
    have c: "\<not> isspace c" using Cons by (rule dropWhile_Cons_head)
    from decomp have a: "filter (\<lambda>c. \<not> isspace c) s = c # filter (\<lambda>c. \<not> isspace c) cs"
      using c by (simp add: Cons filter_not_takeWhile)
    have b: "filter (\<lambda>c. \<not> isspace c) cs =
        takeWhile (\<lambda>x. \<not> isspace x) cs
          @ filter (\<lambda>c. \<not> isspace c) (dropWhile (\<lambda>x. \<not> isspace x) cs)"
      using filter_takeWhile_dropWhile[of "\<lambda>c. \<not> isspace c" cs "\<lambda>x. \<not> isspace x"]
      by (simp only: filter_takeWhile_same)
    have "concat (split s) =
        takeWhile (\<lambda>x. \<not> isspace x) (c # cs)
          @ concat (split (dropWhile (\<lambda>x. \<not> isspace x) cs))"
      using split_eq_Cons[OF Cons] by simp
    also have "\<dots> =
        c # takeWhile (\<lambda>x. \<not> isspace x) cs
          @ filter (\<lambda>c. \<not> isspace c) (dropWhile (\<lambda>x. \<not> isspace x) cs)"
      using "1.IH"[OF Cons] c by simp
    finally show ?thesis using a b by simp
  qed
qed

subsection \<open>\<open>clean_name\<close>\<close>

text \<open>
  Claim C5. For a taxon whose rank has id 8, \<open>clean_name\<close> returns the first two tokens of
  \<open>name\<close> joined by one space (all the tokens when there are fewer than two). For a taxon
  of any other rank it returns the first token of \<open>name\<close>, whenever \<open>name\<close> has one. The
  tokens are those of \<open>split\<close>, which the lemmas above characterise.
\<close>

theorem clean_name_tokens:
  "(rank_id (rank t) = Some 8 \<longrightarrow>
      clean_name t = Inr (join '' '' (take 2 (split (name t))))) \<and>
   (rank_id (rank t) \<noteq> Some 8 \<longrightarrow>
      (\<forall>tok rest. split (name t) = tok # rest \<longrightarrow> clean_name t = Inr tok))"
  by (simp add: clean_name_def)

theorem clean_name_tokens_witness:
  "clean_name \<lparr>tax_id = None, name = ''Homo sapiens Linnaeus'', sup_taxon = None,
               rank = \<lparr>rank_id = Some 8, rank_name = ''species''\<rparr>\<rparr> = Inr ''Homo sapiens'' \<and>
   clean_name \<lparr>tax_id = None, name = '' Homo  sapiens'', sup_taxon = None,
               rank = \<lparr>rank_id = Some 7, rank_name = ''genus''\<rparr>\<rparr> = Inr ''Homo''"
proof -
  have a: "split ''Homo sapiens Linnaeus'' = [''Homo'', ''sapiens'', ''Linnaeus'']"
    by code_simp
  have b: "split '' Homo  sapiens'' = [''Homo'', ''sapiens'']"
    by code_simp
  show ?thesis
    using clean_name_tokens[of "\<lparr>tax_id = None, name = ''Homo sapiens Linnaeus'',
               sup_taxon = None, rank = \<lparr>rank_id = Some 8, rank_name = ''species''\<rparr>\<rparr>"]
      clean_name_tokens[of "\<lparr>tax_id = None, name = '' Homo  sapiens'', sup_taxon = None,
               rank = \<lparr>rank_id = Some 7, rank_name = ''genus''\<rparr>\<rparr>"]
    by (simp add: a b)
qed

text \<open>
  Claim C10, as stated, says that \<open>clean_name\<close> fails for every taxon whose name is empty
  or only whitespace. For a taxon of rank 8 it does not: the slice of the empty token list
  is empty and the join of nothing is the empty string.
\<close>

theorem clean_name_empty_counterexample:
  "clean_name \<lparr>tax_id = None, name = [], sup_taxon = None,
               rank = \<lparr>rank_id = Some 8, rank_name = ''species''\<rparr>\<rparr> = Inr [] \<and>
   clean_name \<lparr>tax_id = None, name = ''  '', sup_taxon = None,
               rank = \<lparr>rank_id = Some 8, rank_name = ''species''\<rparr>\<rparr> = Inr []"
proof -
  have a: "split [] = []" by code_simp
  have b: "split ''  '' = []" by code_simp
  show ?thesis by (simp add: clean_name_def a b)
qed

text \<open>
  Claim C10, amended. \<open>clean_name\<close> fails exactly when the rank id is not 8 and the name is
  empty or only whitespace, and the failure is then an \<open>IndexError\<close>; for a taxon of rank
  id 8 with such a name it returns the empty string. In every other case (a name with at
  least one non-whitespace character) it returns a value.
\<close>

theorem clean_name_fails_iff:
  "(clean_name t = Inl e \<longleftrightarrow>
      e = IndexError \<and> rank_id (rank t) \<noteq> Some 8 \<and> (\<forall>c \<in> set (name t). isspace c)) \<and>
   (rank_id (rank t) = Some 8 \<longrightarrow> (\<forall>c \<in> set (name t). isspace c) \<longrightarrow>
      clean_name t = Inr [])"
proof (cases "rank_id (rank t) = Some 8")
  case True
  then show ?thesis using split_Nil_iff[of "name t"] by (auto simp: clean_name_def)
next
  case False
  show ?thesis
  proof (cases "split (name t)")
    case Nil
    then have "\<forall>c \<in> set (name t). isspace c" by (simp add: split_Nil_iff)
    then show ?thesis using False Nil by (auto simp: clean_name_def)
  next
    case (Cons tok rest)
    then have "\<not> (\<forall>c \<in> set (name t). isspace c)"
      using split_Nil_iff[of "name t"] by simp
    then show ?thesis using False Cons by (simp add: clean_name_def)
  qed
qed

theorem clean_name_fails_iff_witness:
  "clean_name \<lparr>tax_id = None, name = ''  '', sup_taxon = None,
               rank = \<lparr>rank_id = Some 7, rank_name = ''genus''\<rparr>\<rparr> = Inl IndexError \<and>
   clean_name \<lparr>tax_id = None, name = [CHR 0x09, CHR 0x20, CHR 0xA0], sup_taxon = None,
               rank = \<lparr>rank_id = Some 8, rank_name = ''species''\<rparr>\<rparr> = Inr []"
  using clean_name_fails_iff[of "\<lparr>tax_id = None, name = ''  '', sup_taxon = None,
               rank = \<lparr>rank_id = Some 7, rank_name = ''genus''\<rparr>\<rparr>" IndexError]
    clean_name_fails_iff[of "\<lparr>tax_id = None, name = [CHR 0x09, CHR 0x20, CHR 0xA0],
               sup_taxon = None, rank = \<lparr>rank_id = Some 8, rank_name = ''species''\<rparr>\<rparr>" IndexError]
  by (simp add: isspace_def)


subsection \<open>The lookup of the external id\<close>

lemma get_id_from_name_requested:
  "snd (get_id_from_name env nm requested) = requested @ [esearch_url nm]"
  by (simp add: get_id_from_name_def Let_def split: sum.splits option.splits)

text \<open>
  Claim C8. When the service answers and the \<open>Count\<close> element of the answer reads zero,
  \<open>get_id_from_name\<close> returns \<open>None\<close> and raises nothing, and a \<open>save\<close> that made this
  lookup goes on to \<open>Model.save\<close>. A \<open>save\<close> of a taxon that has a \<open>tax_id\<close> requests
  nothing and is \<open>Model.save\<close> alone; a \<open>save\<close> of a taxon without one makes exactly the
  request for its clean name.
\<close>

theorem zero_count_no_id:
  "(requests_get env (esearch_url nm) = Inr content \<longrightarrow>
    fromstring env content = Inr xml_root \<longrightarrow>
    Element_find ''Count'' xml_root = Some count \<longrightarrow>
    py_int (elem_text count) = Inr 0 \<longrightarrow>
      get_id_from_name env nm requested = (Return None, requested @ [esearch_url nm]) \<and>
      (tax_id self = None \<longrightarrow> clean_name self = Inr nm \<longrightarrow>
         save env self requested db = super_save env self (requested @ [esearch_url nm]) db)) \<and>
   (tax_id self \<noteq> None \<longrightarrow>
      save env self requested db = super_save env self requested db \<and>
      fst (snd (snd (save env self requested db))) = requested) \<and>
   (tax_id self = None \<longrightarrow> clean_name self = Inr nm \<longrightarrow>
      fst (snd (snd (save env self requested db))) = requested @ [esearch_url nm])"
proof (intro conjI impI)
  assume h: "requests_get env (esearch_url nm) = Inr content"
    "fromstring env content = Inr xml_root"
    "Element_find ''Count'' xml_root = Some count"
    "py_int (elem_text count) = Inr 0"
  then show g: "get_id_from_name env nm requested = (Return None, requested @ [esearch_url nm])"
    by (simp add: get_id_from_name_def Let_def)
  assume "tax_id self = None" "clean_name self = Inr nm"
  then show "save env self requested db = super_save env self (requested @ [esearch_url nm]) db"
    using g by (cases self) (simp add: save_def set_id_from_name_def)
next
  assume "tax_id self \<noteq> None"
  then show "save env self requested db = super_save env self requested db"
    by (cases "tax_id self") (simp_all add: save_def)
next
  assume "tax_id self \<noteq> None"
  then show "fst (snd (snd (save env self requested db))) = requested"
    by (cases "tax_id self") (simp_all add: save_def super_save_def split: sum.splits)
next
  assume a: "tax_id self = None" "clean_name self = Inr nm"
  then show "fst (snd (snd (save env self requested db))) = requested @ [esearch_url nm]"
    using get_id_from_name_requested[of env nm requested]
    by (cases "get_id_from_name env nm requested")
       (auto simp: save_def set_id_from_name_def super_save_def split: sum.splits outcome.splits)
qed

theorem zero_count_no_id_witness:
  "get_id_from_name sample_taxonomy_env ''Homo sapiens'' [] =
     (Return None, [esearch_url ''Homo sapiens'']) \<and>
   save sample_taxonomy_env sample_taxon [] [] =
     (Return (), sample_taxon, [esearch_url ''Homo sapiens''], [sample_taxon]) \<and>
   save sample_taxonomy_env (sample_taxon\<lparr>tax_id := Some 9606\<rparr>) [] [] =
     (Return (), sample_taxon\<lparr>tax_id := Some 9606\<rparr>, [], [sample_taxon\<lparr>tax_id := Some 9606\<rparr>])"
proof -
  have i: "py_int (Some ''0'') = Inr 0" by code_simp
  have c: "clean_name sample_taxon = Inr ''Homo sapiens''" by code_simp
  have s: "tax_id sample_taxon = None" by (simp add: sample_taxon_def)
  show ?thesis
    using zero_count_no_id[where env = sample_taxonomy_env and nm = "''Homo sapiens''"
        and content = "''<eSearchResult><Count>0</Count><IdList/></eSearchResult>''"
        and xml_root = "Element ''eSearchResult'' None
                      [Element ''Count'' (Some ''0'') [], Element ''IdList'' None []]"
        and count = "Element ''Count'' (Some ''0'') []" and requested = "[]"
        and self = sample_taxon and db = "[]"]
      zero_count_no_id[where env = sample_taxonomy_env and nm = "''Homo sapiens''"
        and self = "sample_taxon\<lparr>tax_id := Some 9606\<rparr>" and requested = "[]" and db = "[]"]
    by (simp add: i c s sample_taxonomy_env_def Element_find_def super_save_def)
qed


section \<open>Properties of the network code\<close>

text \<open>
  Claim C4. On a classifier whose \<open>available\<close> flag is false, \<open>classify\<close> raises, whatever
  the images, and returns no result; the classifier is left as it was.
\<close>

theorem classify_unavailable_raises:
  "\<not> available self \<Longrightarrow>
     classify env self images fs = (Raise (Exception ''The CNN is not available yet''), self)"
  by (simp add: classify_def)

theorem classify_unavailable_raises_witness:
  "classify sample_keras_env (sample_cnn ''googlenet'' False) [7, 8] [] =
     (Raise (Exception ''The CNN is not available yet''), sample_cnn ''googlenet'' False)"
  using classify_unavailable_raises[of "sample_cnn ''googlenet'' False" sample_keras_env "[7, 8]" "[]"]
  by (simp add: sample_cnn_def)

lemma save_model_available:
  "save_model env self fs = (out, self', fs') \<Longrightarrow> available self' = available self"
  by (auto simp: save_model_def Let_def split: option.splits)

lemma save_model_Return:
  "save_model env self fs = (Return u, self', fs') \<Longrightarrow>
     \<exists>p m. learning_data self' = Some p \<and> nn_model self = Some m \<and>
           nn_model self' = Some m \<and> os_mkdir env p fs = None \<and>
           model_save env m p (fs @ [Mkdir p]) = None \<and> fs' = fs @ [Mkdir p, Saved m p]"
  by (auto simp: save_model_def Let_def split: option.splits)

text \<open>
  Claim C6. When \<open>train\<close> raises, at whichever step, the \<open>available\<close> flag is what it was
  before the call. When \<open>train\<close> returns, the flag is true, and by then the directory was
  created and the weights were saved to the path stored in \<open>learning_data\<close>: both
  file-system calls succeeded, in that order.
\<close>

theorem train_available:
  "(train env db self fs = (Raise e, self', fs') \<longrightarrow> available self' = available self) \<and>
   (train env db self fs = (Return u, self', fs') \<longrightarrow>
      available self' \<and>
      (\<exists>p m. learning_data self' = Some p \<and> nn_model self' = Some m \<and>
             os_mkdir env p fs = None \<and> model_save env m p (fs @ [Mkdir p]) = None \<and>
             fs' = fs @ [Mkdir p, Saved m p]))"
proof (intro conjI impI)
  assume "train env db self fs = (Raise e, self', fs')"
  then show "available self' = available self"
    by (auto simp: train_def split_images_def Let_def
             split: sum.splits option.splits prod.splits outcome.splits
             dest: save_model_available)
next
  assume t: "train env db self fs = (Return u, self', fs')"
  then show "available self'"
    by (auto simp: train_def split_images_def Let_def
             split: sum.splits option.splits prod.splits outcome.splits)
  from t show "\<exists>p m. learning_data self' = Some p \<and> nn_model self' = Some m \<and>
             os_mkdir env p fs = None \<and> model_save env m p (fs @ [Mkdir p]) = None \<and>
             fs' = fs @ [Mkdir p, Saved m p]"
    by (auto simp: train_def split_images_def Let_def
             split: sum.splits option.splits prod.splits outcome.splits
             dest!: save_model_Return)
qed

lemma sample_weights_path:
  "weights_path ''/srv/media'' ''googlenet''
     \<lparr>year = 2020, month = 3, day = 7, hour = 15, minute = 30, second = 0\<rparr>
   = ''/srv/media/training_datas/googlenet_2020_3_7_15''"
  by code_simp

lemma sample_train_ok:
  "train sample_keras_env sample_database (sample_cnn ''googlenet'' False) [] =
     (Return (),
      (sample_cnn ''googlenet'' False)
        \<lparr>accuracy := Some (9 / 10),
         learning_data := Some ''/srv/media/training_datas/googlenet_2020_3_7_15'',
         available := True, nn_model := Some 10\<rparr>,
      [Mkdir ''/srv/media/training_datas/googlenet_2020_3_7_15'',
       Saved 10 ''/srv/media/training_datas/googlenet_2020_3_7_15''])"
  by (simp add: train_def compile_def split_images_def save_model_def sample_keras_env_def
        sample_cnn_def sample_architecture_def sample_weights_path Let_def)

lemma sample_train_fails:
  "train sample_keras_env sample_database (sample_cnn ''googlenet'' False)
       [Mkdir ''/srv/media/training_datas/googlenet_2020_3_7_15''] =
     (Raise (LibraryError ''FileExistsError''),
      (sample_cnn ''googlenet'' False)
        \<lparr>accuracy := Some (9 / 10),
         learning_data := Some ''/srv/media/training_datas/googlenet_2020_3_7_15'',
         nn_model := Some 10\<rparr>,
      [Mkdir ''/srv/media/training_datas/googlenet_2020_3_7_15''])"
  by (simp add: train_def compile_def split_images_def save_model_def sample_keras_env_def
        sample_cnn_def sample_architecture_def sample_weights_path Let_def)

theorem train_available_witness:
  "available (fst (snd (train sample_keras_env sample_database (sample_cnn ''googlenet'' False) []))) \<and>
   \<not> available (fst (snd (train sample_keras_env sample_database (sample_cnn ''googlenet'' False)
       [Mkdir ''/srv/media/training_datas/googlenet_2020_3_7_15''])))"
  using train_available[where env = sample_keras_env and db = sample_database
          and self = "sample_cnn ''googlenet'' False" and fs = "[]" and u = "()"
          and self' = "(sample_cnn ''googlenet'' False)
        \<lparr>accuracy := Some (9 / 10),
         learning_data := Some ''/srv/media/training_datas/googlenet_2020_3_7_15'',
         available := True, nn_model := Some 10\<rparr>"
          and fs' = "[Mkdir ''/srv/media/training_datas/googlenet_2020_3_7_15'',
       Saved 10 ''/srv/media/training_datas/googlenet_2020_3_7_15'']"]
    train_available[where env = sample_keras_env and db = sample_database
          and self = "sample_cnn ''googlenet'' False"
          and fs = "[Mkdir ''/srv/media/training_datas/googlenet_2020_3_7_15'']"
          and e = "LibraryError ''FileExistsError''"
          and self' = "(sample_cnn ''googlenet'' False)
        \<lparr>accuracy := Some (9 / 10),
         learning_data := Some ''/srv/media/training_datas/googlenet_2020_3_7_15'',
         nn_model := Some 10\<rparr>"
          and fs' = "[Mkdir ''/srv/media/training_datas/googlenet_2020_3_7_15'']"]
  by (simp add: sample_train_ok sample_train_fails) (simp add: sample_cnn_def)


subsection \<open>Where \<open>save_model\<close> writes\<close>

lemma split_on_not_Nil: "split_on sep s \<noteq> []"
  by (induction s) (auto split: list.splits)

lemma split_on_no_sep: "sep \<notin> set s \<Longrightarrow> split_on sep s = [s]"
  by (induction s) auto

lemma split_on_append: "split_on sep (a @ sep # b) = split_on sep a @ split_on sep b"
proof (induction a)
  case Nil
  show ?case by simp
next
  case (Cons c a)
  obtain x xs where x: "split_on sep a = x # xs"
    using split_on_not_Nil[of sep a] by (cases "split_on sep a") auto
  show ?case using Cons x by simp
qed

lemma normpath_comps_child:
  assumes "r \<noteq> []" and "CHR ''/'' \<notin> set leaf" and "leaf \<noteq> []" and "leaf \<noteq> ''.''"
    and "leaf \<noteq> ''..''"
  shows "normpath_comps (r @ ''/'' @ leaf) = normpath_comps r @ [leaf]"
proof -
  have s: "startswith_sep (r @ ''/'' @ leaf) = startswith_sep r"
    using assms(1) by (cases r) (simp_all add: startswith_sep_def)
  have "split_on CHR ''/'' (r @ ''/'' @ leaf) = split_on CHR ''/'' r @ [leaf]"
    using split_on_append[of "CHR ''/''" r leaf] split_on_no_sep[OF assms(2)] by simp
  then show ?thesis
    using assms(3-5) s by (simp add: normpath_comps_def normpath_step_def)
qed

lemma is_under_child:
  assumes "r \<noteq> []" and "CHR ''/'' \<notin> set leaf" and "leaf \<noteq> []" and "leaf \<noteq> ''.''"
    and "leaf \<noteq> ''..''"
  shows "is_under r (r @ ''/'' @ leaf)"
proof -
  have "startswith_sep (r @ ''/'' @ leaf) = startswith_sep r"
    using assms(1) by (cases r) (simp_all add: startswith_sep_def)
  then show ?thesis
    using normpath_comps_child[OF assms] by (simp add: is_under_def)
qed

lemma of_char_digit_char: "d < 10 \<Longrightarrow> of_char (digit_char d) = 48 + d"
  by (simp add: digit_char_def)

lemma digit_char_not_sep: "d < 10 \<Longrightarrow> digit_char d \<noteq> CHR ''/''"
proof
  assume d: "d < 10" and "digit_char d = CHR ''/''"
  then have "(of_char (digit_char d) :: nat) = of_char (CHR ''/'')" by simp
  then show False using of_char_digit_char[OF d] by simp
qed

lemma str_nat_no_sep: "CHR ''/'' \<notin> set (str_nat n)"
proof (induction n rule: str_nat.induct)
  case (1 n)
  show ?case
  proof (cases "n < 10")
    case True
    then show ?thesis using digit_char_not_sep[of n] by (simp add: str_nat.simps[of n])
  next
    case False
    have "n mod 10 < 10" by simp
    then have "digit_char (n mod 10) \<noteq> CHR ''/''" by (rule digit_char_not_sep)
    then show ?thesis using False "1.IH" by (simp add: str_nat.simps[of n])
  qed
qed

lemma str_int_no_sep: "CHR ''/'' \<notin> set (str_int i)"
  by (simp add: str_int_def str_nat_no_sep)

lemma weights_leaf_plain:
  assumes "CHR ''/'' \<notin> set nm"
  shows "CHR ''/'' \<notin> set (weights_leaf nm d) \<and> weights_leaf nm d \<noteq> [] \<and>
         weights_leaf nm d \<noteq> ''.'' \<and> weights_leaf nm d \<noteq> ''..''"
proof -
  have u: "CHR ''_'' \<in> set (weights_leaf nm d)" by (simp add: weights_leaf_def)
  have "CHR ''/'' \<notin> set (weights_leaf nm d)"
    using assms by (simp add: weights_leaf_def str_int_no_sep)
  moreover have "weights_leaf nm d \<noteq> []" using u by auto
  moreover have "weights_leaf nm d \<noteq> ''.''" using u by auto
  moreover have "weights_leaf nm d \<noteq> ''..''" using u by auto
  ultimately show ?thesis by blast
qed

lemma training_root_shape:
  "os_path_join r [''training_datas''] \<noteq> [] \<and> \<not> endswith_sep (os_path_join r [''training_datas''])"
  by (simp add: startswith_sep_def endswith_sep_def)

lemma startswith_sep_weights_leaf: "startswith_sep (weights_leaf nm d) = startswith_sep nm"
  by (cases nm) (simp_all add: startswith_sep_def weights_leaf_def)

lemma weights_path_under_root:
  assumes "\<not> startswith_sep nm"
  shows "weights_path r nm d = os_path_join r [''training_datas''] @ ''/'' @ weights_leaf nm d"
  using assms training_root_shape[of r]
  by (simp add: weights_path_def startswith_sep_weights_leaf)

lemma plain_name_not_absolute: "CHR ''/'' \<notin> set nm \<Longrightarrow> \<not> startswith_sep nm"
  by (cases nm) (auto simp: startswith_sep_def)

text \<open>
  For an architecture name without a separator the path that \<open>save_model\<close> stores is
  under the training root, also after normalisation.
\<close>

lemma save_model_plain_name_under_root:
  assumes "date self = Some d" and "CHR ''/'' \<notin> set (arch_name (architecture self))"
  shows "learning_data (fst (snd (save_model env self fs)))
           = Some (weights_path (MEDIA_ROOT env) (arch_name (architecture self)) d) \<and>
         is_under (os_path_join (MEDIA_ROOT env) [''training_datas''])
           (weights_path (MEDIA_ROOT env) (arch_name (architecture self)) d)"
proof -
  have p: "weights_path (MEDIA_ROOT env) (arch_name (architecture self)) d =
      os_path_join (MEDIA_ROOT env) [''training_datas''] @ ''/''
        @ weights_leaf (arch_name (architecture self)) d"
    using plain_name_not_absolute[OF assms(2)] by (rule weights_path_under_root)
  have r: "os_path_join (MEDIA_ROOT env) [''training_datas''] \<noteq> []"
    using training_root_shape[of "MEDIA_ROOT env"] by simp
  have l: "CHR ''/'' \<notin> set (weights_leaf (arch_name (architecture self)) d)"
    "weights_leaf (arch_name (architecture self)) d \<noteq> []"
    "weights_leaf (arch_name (architecture self)) d \<noteq> ''.''"
    "weights_leaf (arch_name (architecture self)) d \<noteq> ''..''"
    using weights_leaf_plain[OF assms(2), of d] by simp_all
  have "is_under (os_path_join (MEDIA_ROOT env) [''training_datas''])
      (os_path_join (MEDIA_ROOT env) [''training_datas''] @ ''/''
        @ weights_leaf (arch_name (architecture self)) d)"
    using r l by (rule is_under_child)
  moreover have "learning_data (fst (snd (save_model env self fs)))
      = Some (weights_path (MEDIA_ROOT env) (arch_name (architecture self)) d)"
    using assms(1) by (simp add: save_model_def Let_def split: option.splits)
  ultimately show ?thesis by (simp only: p simp_thms)
qed


lemma absolute_weights_path:
  "weights_path ''/srv/media'' ''/tmp/x''
     \<lparr>year = 2020, month = 3, day = 7, hour = 15, minute = 30, second = 0\<rparr>
   = ''/tmp/x_2020_3_7_15''"
  by code_simp

lemma parent_weights_path:
  "weights_path ''/srv/media'' ''../evil''
     \<lparr>year = 2020, month = 3, day = 7, hour = 15, minute = 30, second = 0\<rparr>
   = ''/srv/media/training_datas/../evil_2020_3_7_15''"
  by code_simp

lemma sample_paths_outside:
  "\<not> is_under ''/srv/media/training_datas'' ''/tmp/x_2020_3_7_15'' \<and>
   \<not> is_under ''/srv/media/training_datas'' ''/srv/media/training_datas/../evil_2020_3_7_15'' \<and>
   normpath_comps ''/srv/media/training_datas/../evil_2020_3_7_15''
     = [''srv'', ''media'', ''evil_2020_3_7_15'']"
  by code_simp

text \<open>
  Claim C7 (the weights are written under \<open>MEDIA_ROOT/training_datas\<close>, in a directory
  created before the save). The directory is created and then the model saved, at the
  joined path, but the architecture name is not checked. For the name \<open>/tmp/x\<close> the join
  drops the root and the weights go to \<open>/tmp/x_2020_3_7_15\<close>; for the name \<open>../evil\<close>
  they go to \<open>/srv/media/training_datas/../evil_2020_3_7_15\<close>, which is
  \<open>/srv/media/evil_2020_3_7_15\<close>. Neither is under the root.
\<close>

theorem save_model_escapes_training_root:
  "os_path_join (MEDIA_ROOT sample_keras_env) [''training_datas''] = ''/srv/media/training_datas'' \<and>
   save_model sample_keras_env ((sample_cnn ''/tmp/x'' False)\<lparr>nn_model := Some 10\<rparr>) [] =
     (Return (),
      (sample_cnn ''/tmp/x'' False)\<lparr>nn_model := Some 10, learning_data := Some ''/tmp/x_2020_3_7_15''\<rparr>,
      [Mkdir ''/tmp/x_2020_3_7_15'', Saved 10 ''/tmp/x_2020_3_7_15'']) \<and>
   is_under ''/srv/media/training_datas'' ''/tmp/x_2020_3_7_15'' = False \<and>
   save_model sample_keras_env ((sample_cnn ''../evil'' False)\<lparr>nn_model := Some 10\<rparr>) [] =
     (Return (),
      (sample_cnn ''../evil'' False)
        \<lparr>nn_model := Some 10,
         learning_data := Some ''/srv/media/training_datas/../evil_2020_3_7_15''\<rparr>,
      [Mkdir ''/srv/media/training_datas/../evil_2020_3_7_15'',
       Saved 10 ''/srv/media/training_datas/../evil_2020_3_7_15'']) \<and>
   normpath_comps ''/srv/media/training_datas/../evil_2020_3_7_15''
     = [''srv'', ''media'', ''evil_2020_3_7_15''] \<and>
   is_under ''/srv/media/training_datas'' ''/srv/media/training_datas/../evil_2020_3_7_15'' = False"
  using sample_paths_outside
  by (simp add: save_model_def sample_keras_env_def sample_cnn_def sample_architecture_def
        absolute_weights_path parent_weights_path Let_def startswith_sep_def endswith_sep_def)


section \<open>Properties of the preprocessing\<close>

text \<open>
  Claim C9. For an image that the decoder reads as an RGB array, \<open>preprocess\<close> returns a
  tensor of shape (1, 3, 224, 224). With the decoded image resized to 224 by 224 and its
  values converted to floats, the entry at batch 0, channel 0, row i, column j is the blue
  value minus 103.939, channel 1 is the green value minus 116.779 and channel 2 is the red
  value minus 123.68: the means are subtracted per RGB channel, then the channels are
  reversed, moved to the front, and a batch axis is added. The float conversion and the
  float subtraction are the environment's.
\<close>

theorem preprocess_tensor:
  assumes "imread env (image_path self) = Inr raw" and "snd (snd (shape3 raw)) = 3"
  shows "\<exists>out. preprocess env self = Inr out \<and> shape4 out = (1, 3, 224, 224) \<and>
     (\<forall>i j.
        at4 out 0 0 i j =
          float32_sub env (astype_float32 env (at3 (resize env raw (224, 224)) i j 2)) 103.939 \<and>
        at4 out 0 1 i j =
          float32_sub env (astype_float32 env (at3 (resize env raw (224, 224)) i j 1)) 116.779 \<and>
        at4 out 0 2 i j =
          float32_sub env (astype_float32 env (at3 (resize env raw (224, 224)) i j 0)) 123.68)"
proof -
  obtain h0 w0 where s: "shape3 raw = (h0, w0, 3)"
    using assms(2) by (cases "shape3 raw") auto
  show ?thesis
    using assms(1) s
    by (simp add: preprocess_def resize_def astype_def isub_channel_def assign_channels_def
          transpose_2_0_1_def expand_dims_0_def Let_def)
qed

theorem preprocess_tensor_witness:
  "(case preprocess sample_image_env \<lparr>image_path = ''images/leaf.png''\<rparr> of
      Inl e \<Rightarrow> False
    | Inr out \<Rightarrow>
        shape4 out = (1, 3, 224, 224) \<and>
        at4 out 0 0 5 6 = 50 - 103.939 \<and>
        at4 out 0 1 5 6 = 100 - 116.779 \<and>
        at4 out 0 2 5 6 = 200 - 123.68)"
  using preprocess_tensor[of sample_image_env "\<lparr>image_path = ''images/leaf.png''\<rparr>"
      "\<lparr>shape3 = (2, 2, 3),
        at3 = (\<lambda>i j k. if k = 0 then 200 else if k = 1 then 100 else 50)\<rparr>"]
  by (auto simp: sample_image_env_def resize_def)


section \<open>Where the code stops short of the specification\<close>

text \<open>
  Claim C1 (the accessor returns the species of maximal summed confidence). On the sample
  store the predictions of image 7 sum to 0.1 for species 1 and to 0.5 for species 2, and
  \<open>specie\<close> returns the row of species 1: the query computes the sums and never orders
  by them, and \<open>first()\<close> takes the row of the oldest prediction.
\<close>

theorem specie_first_prediction_not_maximal:
  "specie sample_database 7 = Some ([1], 1 / 10) \<and>
   summed_confidence sample_database 7 1 = 1 / 10 \<and>
   summed_confidence sample_database 7 2 = 5 / 10"
  by (simp add: specie_def first_def fetch_rows_def order_by_def values_annotate_Sum_def
        prediction_set_def summed_confidence_def sample_database_def Let_def)

text \<open>
  On the spec's own example the species returned is A, with the confidence 0.6 of the
  first row as \<open>tot_conf\<close>, not the sum 0.9.
\<close>

lemma specie_spec_example:
  "specie example_database 7 = Some ([1], 6 / 10) \<and>
   summed_confidence example_database 7 1 = 9 / 10"
  by (simp add: specie_def first_def fetch_rows_def order_by_def values_annotate_Sum_def
        prediction_set_def summed_confidence_def example_database_def Let_def)

lemma split_images_no_effect: "split_images db images test_fraction self = (Return (), self, db)"
  by (simp add: split_images_def Let_def)

text \<open>
  Claim C2 (a species with more than ten ground-truth images is admitted as a class). The
  sample store holds eleven images of species 1, and after \<open>split_images\<close> there is still
  no \<open>Class\<close> row and no training set: the admission loop exists only as a comment.
\<close>

theorem split_images_admits_nothing:
  "values_annotate_Count sample_database (GroundTruthImage_objects sample_database)
     = [(Some ''Quercus robur'', 11)] \<and>
   Class_objects (snd (snd (split_images sample_database None (2 / 10)
       (sample_cnn ''googlenet'' False)))) = [] \<and>
   train_images (fst (snd (split_images sample_database None (2 / 10)
       (sample_cnn ''googlenet'' False)))) = None"
proof -
  have "values_annotate_Count sample_database (GroundTruthImage_objects sample_database)
     = [(Some ''Quercus robur'', 11)]"
    by code_simp
  then show ?thesis
    by (simp add: split_images_def Let_def sample_cnn_def sample_database_def)
qed


lemma classify_returns_no_species: "fst (classify env self images fs) \<noteq> Return (Some species)"
  by (simp add: classify_def split: option.splits sum.splits prod.splits outcome.splits)

text \<open>
  Claim C3 (the species of the best class is returned for each image). On an available
  classifier whose model scores two images, \<open>classify\<close> returns \<open>None\<close>: the argmax is
  computed over the whole batch, dropped, and no \<open>Class\<close> row is consulted.
\<close>

theorem classify_returns_None:
  "classify sample_keras_env ((sample_cnn ''googlenet'' True)\<lparr>nn_model := Some 10\<rparr>) [7, 8] [] =
     (Return None, (sample_cnn ''googlenet'' True)\<lparr>nn_model := Some 10\<rparr>) \<and>
   model_predict sample_keras_env 10 [7, 8] = Inr [[1 / 10, 9 / 10], [1 / 10, 9 / 10]]"
  by (simp add: classify_def argmax_def sample_keras_env_def sample_cnn_def)


end
